theory Spec2Isabelle
  imports Complex_Main
begin

section \<open>Data model\<close>

text \<open>
  The types of \<^verbatim>\<open>src/models/Subscription.ts\<close> and \<^verbatim>\<open>src/models/Payment.ts\<close>.
  A \<^verbatim>\<open>Date\<close> is its number of milliseconds since the epoch, taken inside the range
  of a JavaScript date. An optional field is an \<open>option\<close>: \<open>None\<close> stands for a field
  that is absent, \<^verbatim>\<open>undefined\<close> or \<^verbatim>\<open>null\<close>, which the code never tells apart
  (\<^verbatim>\<open>doc.renewsAt ? ... : null\<close>). The timestamps \<^verbatim>\<open>createdAt\<close> and
  \<^verbatim>\<open>updatedAt\<close> are kept by the object mapper with a clock of its own and are
  not part of the model.
\<close>

type_synonym date = int

datatype Plan = Free | Monthly | Yearly | Lifetime

datatype SubStatus = Active | Inactive | Canceled | Expired

datatype SubSource = Src_google_play | Src_app_store | Src_stripe | Src_admin

datatype Platform = Android | Ios | Web

datatype Provider = Google_play | App_store | Stripe | Promo

record SubscriptionDocument =
  userId :: string
  plan :: Plan
  status :: SubStatus
  source :: SubSource
  startedAt :: "date option"
  renewsAt :: "date option"
  canceledAt :: "date option"
  latestPaymentId :: "nat option"

text \<open>The shape returned to the mobile app (\<^verbatim>\<open>ClientSubscription\<close>).\<close>

record ClientSubscription =
  c_plan :: Plan
  c_status :: SubStatus
  autoRenew :: bool
  periodEnd :: "int option"
  storageLimitGb :: "nat option"

section \<open>Strings as JavaScript sees them\<close>

text \<open>
  \<^verbatim>\<open>!v\<close> on a value typed \<^verbatim>\<open>string | undefined\<close>: false exactly for a non-empty
  string.
\<close>

definition truthy :: "string option \<Rightarrow> bool" where
  "truthy v = (case v of None \<Rightarrow> False | Some s \<Rightarrow> s \<noteq> [])"

text \<open>\<^verbatim>\<open>s.includes(sub)\<close>: \<open>sub\<close> occurs in \<open>s\<close> as a contiguous run.\<close>

fun str_includes :: "string \<Rightarrow> string \<Rightarrow> bool" where
  "str_includes [] sub = (sub = [])"
| "str_includes (c # cs) sub = (take (length sub) (c # cs) = sub \<or> str_includes cs sub)"

text \<open>
  \<^verbatim>\<open>toLowerCase\<close> and \<^verbatim>\<open>toUpperCase\<close> on the ASCII letters; every other
  character is left as it is.
\<close>

definition toLowerChar :: "char \<Rightarrow> char" where
  "toLowerChar c =
     (case map_of (zip ''ABCDEFGHIJKLMNOPQRSTUVWXYZ'' ''abcdefghijklmnopqrstuvwxyz'') c of
        None \<Rightarrow> c | Some d \<Rightarrow> d)"

definition toUpperChar :: "char \<Rightarrow> char" where
  "toUpperChar c =
     (case map_of (zip ''abcdefghijklmnopqrstuvwxyz'' ''ABCDEFGHIJKLMNOPQRSTUVWXYZ'') c of
        None \<Rightarrow> c | Some d \<Rightarrow> d)"

definition toLowerCase :: "string \<Rightarrow> string" where
  "toLowerCase s = map toLowerChar s"

definition toUpperCase :: "string \<Rightarrow> string" where
  "toUpperCase s = map toUpperChar s"

section \<open>Plan derivation and the entitlement projection (subscription.ts)\<close>

text \<open>
  \<^verbatim>\<open>planFromProductId\<close>, the same function in \<^verbatim>\<open>routes/subscription.ts\<close> and in
  \<^verbatim>\<open>routes/revenuecatWebhook.ts\<close>.
\<close>

definition planFromProductId :: "string option \<Rightarrow> Plan" where
  "planFromProductId productId =
     (case productId of
        None \<Rightarrow> Free
      | Some p \<Rightarrow>
          if p = [] then Free
          else if str_includes p ''.monthly'' then Monthly
          else if str_includes p ''.yearly'' then Yearly
          else if str_includes p ''.lifetime'' then Lifetime
          else Free)"

definition toClientShape :: "SubscriptionDocument option \<Rightarrow> ClientSubscription" where
  "toClientShape doc =
     (case doc of
        None \<Rightarrow>
          \<lparr>c_plan = Free, c_status = Inactive, autoRenew = False, periodEnd = None,
           storageLimitGb = None\<rparr>
      | Some d \<Rightarrow>
          (let isLifetime = (plan d = Lifetime);
               pEnd = (case renewsAt d of None \<Rightarrow> None | Some t \<Rightarrow> Some t);
               auto = (\<not> isLifetime \<and> plan d \<noteq> Free \<and> status d = Active)
           in \<lparr>c_plan = plan d, c_status = status d, autoRenew = auto, periodEnd = pEnd,
               storageLimitGb = (if isLifetime then Some 10 else None)\<rparr>))"

section \<open>Requests\<close>

text \<open>
  The event of a webhook body, with the fields the handler reads. A field is \<open>None\<close>
  when the JSON has no such key or \<^verbatim>\<open>null\<close> there; the two time fields are \<open>None\<close>
  also when their value is not a number (\<^verbatim>\<open>typeof ... === "number"\<close>), and a number
  there is a whole number of milliseconds.
\<close>

record RcEvent =
  event_type :: "string option"
  app_user_id :: "string option"
  product_id :: "string option"
  transaction_id :: "string option"
  original_transaction_id :: "string option"
  expiration_at_ms :: "int option"
  purchased_at_ms :: "int option"
  store :: "string option"
  event_currency :: "string option"
  cancel_reason :: "string option"

record WebhookRequest =
  authorization :: "string option"
  event :: "RcEvent option"

text \<open>
  A JavaScript number: finite, or one of the three values \<^verbatim>\<open>Number.isFinite\<close>
  refuses.
\<close>

datatype jsnumber = Finite real | NaN | PosInfinity | NegInfinity

text \<open>
  \<^verbatim>\<open>ActivateBody\<close>. \<open>body_amountCents\<close> and \<open>body_periodEnd\<close> are \<open>None\<close> when the
  value is not of type number.
\<close>

record ActivateBody =
  body_plan :: "Plan option"
  body_periodEnd :: "int option"
  body_amountCents :: "jsnumber option"
  body_currency :: "string option"
  body_productId :: "string option"
  body_transactionId :: "string option"
  body_platform :: "Platform option"
  body_provider :: "Provider option"

section \<open>The datastore\<close>

datatype RawPayload = RawWebhook RcEvent | RawActivate ActivateBody

record PaymentDocument =
  pay_id :: nat
  pay_userId :: string
  platform :: Platform
  provider :: Provider
  productId :: string
  transactionId :: string
  originalTransactionId :: "string option"
  amountCents :: real
  currency :: string
  purchasedAt :: date
  expiresAt :: "date option"
  rawPayload :: RawPayload

text \<open>
  The two collections. \<^verbatim>\<open>userId\<close> is a unique key of the subscriptions, so they are a
  map from it; the payments are the list of documents in insertion order, and what
  keeps \<^verbatim>\<open>transactionId\<close> unique there is left to the operations.
\<close>

record Db =
  subscriptions :: "string \<rightharpoonup> SubscriptionDocument"
  payments :: "PaymentDocument list"

text \<open>
  The object mapper is not part of the repository. What its update operations do with
  a key whose value is \<^verbatim>\<open>undefined\<close> differs between its major versions: the key is
  written and clears the field, or the key is dropped from the update and the stored
  field stays. The code gives \<^verbatim>\<open>undefined\<close> to several keys, so the model takes the
  treatment as a parameter of every update. The mapper drops such keys since its
  version 6: \<open>Dropped\<close> is the store the handlers run on, and \<open>Written\<close> the
  behaviour of the versions before.
\<close>

datatype undefined_keys = Dropped | Written

text \<open>
  One key of an update document: not mentioned, mentioned with the value
  \<^verbatim>\<open>undefined\<close>, or mentioned with a value.
\<close>

datatype 'a field_update = NoKey | Undefined | Value 'a

fun write_field :: "undefined_keys \<Rightarrow> 'a field_update \<Rightarrow> 'a option \<Rightarrow> 'a option" where
  "write_field pol NoKey old = old"
| "write_field pol (Value v) old = Some v"
| "write_field Dropped Undefined old = old"
| "write_field Written Undefined old = None"

text \<open>\<^verbatim>\<open>{ key: x }\<close> for a variable \<^verbatim>\<open>x\<close> that holds a value or \<^verbatim>\<open>undefined\<close>.\<close>

definition js_value :: "'a option \<Rightarrow> 'a field_update" where
  "js_value x = (case x of None \<Rightarrow> Undefined | Some v \<Rightarrow> Value v)"

text \<open>
  The update documents given to \<^verbatim>\<open>SubscriptionModel.findOneAndUpdate\<close>. Each of them
  names \<^verbatim>\<open>userId\<close> (the filter's), \<^verbatim>\<open>plan\<close>, \<^verbatim>\<open>status\<close> and \<^verbatim>\<open>source\<close>
  with a value.
\<close>

record SubscriptionUpdate =
  upd_plan :: Plan
  upd_status :: SubStatus
  upd_source :: SubSource
  upd_startedAt :: "date field_update"
  upd_renewsAt :: "date field_update"
  upd_canceledAt :: "date field_update"
  upd_latestPaymentId :: "nat field_update"

text \<open>
  \<^verbatim>\<open>findOneAndUpdate({ userId }, update, { upsert: true, new: true })\<close>: the document
  after the update, created from the filter and the update when the user has none.
\<close>

definition findOneAndUpdate ::
  "undefined_keys \<Rightarrow> string \<Rightarrow> SubscriptionUpdate \<Rightarrow> (string \<rightharpoonup> SubscriptionDocument)
     \<Rightarrow> SubscriptionDocument" where
  "findOneAndUpdate pol uid upd subs =
     (let old = subs uid in
      \<lparr>userId = uid,
       plan = upd_plan upd,
       status = upd_status upd,
       source = upd_source upd,
       startedAt = write_field pol (upd_startedAt upd) (Option.bind old startedAt),
       renewsAt = write_field pol (upd_renewsAt upd) (Option.bind old renewsAt),
       canceledAt = write_field pol (upd_canceledAt upd) (Option.bind old canceledAt),
       latestPaymentId =
         write_field pol (upd_latestPaymentId upd) (Option.bind old latestPaymentId)\<rparr>)"

text \<open>
  \<^verbatim>\<open>PaymentModel.updateOne(filter, update, { upsert: true })\<close>: the first document
  the filter matches gets the \<^verbatim>\<open>$set\<close> part of the update; when none matches, the
  document made of the filter, \<^verbatim>\<open>$setOnInsert\<close> and \<^verbatim>\<open>$set\<close> is inserted.
\<close>

fun updateOne ::
  "(PaymentDocument \<Rightarrow> bool) \<Rightarrow> (PaymentDocument \<Rightarrow> PaymentDocument) \<Rightarrow> PaymentDocument
     \<Rightarrow> PaymentDocument list \<Rightarrow> PaymentDocument list" where
  "updateOne matches set_part inserted [] = [inserted]"
| "updateOne matches set_part inserted (p # ps) =
     (if matches p then set_part p # ps else p # updateOne matches set_part inserted ps)"

section \<open>Responses\<close>

datatype WebhookAck =
  AckOk | AckSkipped | AckRevoked | AckCanceled | AckExpired | AckIgnored string

text \<open>
  What a handler answers: status 401, 400 with its message, 404, or 200 with the
  webhook's acknowledgement or the client's subscription. A failure of the datastore
  (status 500) is outside the model: every operation of the store succeeds.
\<close>

datatype Response =
  Unauthorized
| BadRequest string
| NotFound
| Acknowledged WebhookAck
| Payload ClientSubscription

section \<open>The webhook (routes/revenuecatWebhook.ts)\<close>

definition timingSafeEqual :: "string \<Rightarrow> string \<Rightarrow> bool" where
  "timingSafeEqual a b = (if length a \<noteq> length b then False else a = b)"

definition providerFromStore :: "string option \<Rightarrow> Provider" where
  "providerFromStore st =
     (let s = toLowerCase (case st of None \<Rightarrow> [] | Some x \<Rightarrow> x) in
      if str_includes s ''play'' \<or> str_includes s ''google'' then Google_play
      else if str_includes s ''app_store'' \<or> str_includes s ''apple'' \<or> str_includes s ''ios''
        then App_store
      else if str_includes s ''stripe'' then Stripe
      else Promo)"

definition isPurchaseLike :: "string \<Rightarrow> bool" where
  "isPurchaseLike type =
     (type = ''INITIAL_PURCHASE'' \<or> type = ''RENEWAL'' \<or> type = ''NON_RENEWING_PURCHASE'' \<or>
      type = ''UNCANCELLATION'' \<or> type = ''PRODUCT_CHANGE'')"

definition looksLikeRefund :: "string \<Rightarrow> string option \<Rightarrow> bool" where
  "looksLikeRefund type cancelReason =
     (type = ''CANCELLATION'' \<and> cancelReason = Some ''CUSTOMER_SUPPORT'')"

text \<open>
  The handler of \<^verbatim>\<open>POST /webhooks/revenuecat\<close> comes in two parts. The second
  part, \<open>apply_event\<close>, is what the handler does once the event has a type and a user
  id (its steps 2 to 6); \<open>now\<close> is the clock at the request.
\<close>

definition apply_event ::
  "undefined_keys \<Rightarrow> date \<Rightarrow> string \<Rightarrow> string \<Rightarrow> RcEvent \<Rightarrow> Db \<Rightarrow> Response \<times> Db" where
  "apply_event pol now type uid ev db =
     (let pid = product_id ev;
          cur = (case event_currency ev of None \<Rightarrow> ''USD'' | Some c \<Rightarrow> c);
          pl = planFromProductId pid;
          renews =
            (case expiration_at_ms ev of
               None \<Rightarrow> None
             | Some ms \<Rightarrow> if ms \<noteq> 0 then Some ms else None);
          started =
            (case purchased_at_ms ev of
               None \<Rightarrow> now
             | Some ms \<Rightarrow> if ms \<noteq> 0 then ms else now);
          prov = providerFromStore (store ev);
          src =
            (if prov = Google_play then Src_google_play
             else if prov = App_store then Src_app_store
             else if prov = Stripe then Src_stripe
             else Src_admin)
      in
      if isPurchaseLike type then
        (let ledger =
           (case transaction_id ev of
              None \<Rightarrow> payments db
            | Some t \<Rightarrow>
               if t = [] then payments db
               else
                updateOne (\<lambda>p. transactionId p = t) (\<lambda>p. p)
                  \<lparr>pay_id = length (payments db),
                   pay_userId = uid,
                   platform =
                     (if prov = App_store then Ios
                      else if prov = Google_play then Android
                      else Web),
                   provider = prov,
                   productId =
                     (case pid of None \<Rightarrow> ''unknown'' | Some x \<Rightarrow> x),
                   transactionId = t,
                   originalTransactionId = original_transaction_id ev,
                   amountCents = 0,
                   currency = cur,
                   purchasedAt = started,
                   expiresAt = renews,
                   rawPayload = RawWebhook ev\<rparr>
                  (payments db));
             doc =
               findOneAndUpdate pol uid
                 \<lparr>upd_plan = pl, upd_status = Active, upd_source = src,
                  upd_startedAt = Value started,
                  upd_renewsAt = js_value renews,
                  upd_canceledAt = Undefined,
                  upd_latestPaymentId = NoKey\<rparr>
                 (subscriptions db)
         in (Acknowledged AckOk,
             \<lparr>subscriptions = (subscriptions db)(uid \<mapsto> doc),
              payments = ledger\<rparr>))
      else if looksLikeRefund type (cancel_reason ev) then
        (let doc =
           findOneAndUpdate pol uid
             \<lparr>upd_plan = Free, upd_status = Inactive, upd_source = src,
              upd_startedAt = NoKey,
              upd_renewsAt = Undefined,
              upd_canceledAt = Value now,
              upd_latestPaymentId = NoKey\<rparr>
             (subscriptions db)
         in (Acknowledged AckRevoked,
             db\<lparr>subscriptions := (subscriptions db)(uid \<mapsto> doc)\<rparr>))
      else if type = ''CANCELLATION'' then
        (let doc =
           findOneAndUpdate pol uid
             \<lparr>upd_plan = pl, upd_status = Canceled, upd_source = src,
              upd_startedAt = NoKey,
              upd_renewsAt = js_value renews,
              upd_canceledAt = Value now,
              upd_latestPaymentId = NoKey\<rparr>
             (subscriptions db)
         in (Acknowledged AckCanceled,
             db\<lparr>subscriptions := (subscriptions db)(uid \<mapsto> doc)\<rparr>))
      else if type = ''EXPIRATION'' then
        (let doc =
           findOneAndUpdate pol uid
             \<lparr>upd_plan = Free, upd_status = Expired, upd_source = src,
              upd_startedAt = NoKey,
              upd_renewsAt = Undefined,
              upd_canceledAt = Value now,
              upd_latestPaymentId = NoKey\<rparr>
             (subscriptions db)
         in (Acknowledged AckExpired,
             db\<lparr>subscriptions := (subscriptions db)(uid \<mapsto> doc)\<rparr>))
      else (Acknowledged (AckIgnored type), db))"

text \<open>
  The first part: the check of the authorization header against the environment's
  \<^verbatim>\<open>REVENUECAT_WEBHOOK_AUTH\<close> (\<open>expected\<close>; no check when it is unset or empty), and
  the guards on the event, its type and its user id.
\<close>

definition authorized :: "string option \<Rightarrow> WebhookRequest \<Rightarrow> bool" where
  "authorized expected req =
     (case expected of
        None \<Rightarrow> True
      | Some e \<Rightarrow>
         if e = [] then True
         else timingSafeEqual (case authorization req of None \<Rightarrow> [] | Some h \<Rightarrow> h) e)"

definition post_webhooks_revenuecat ::
  "undefined_keys \<Rightarrow> string option \<Rightarrow> date \<Rightarrow> WebhookRequest \<Rightarrow> Db \<Rightarrow> Response \<times> Db" where
  "post_webhooks_revenuecat pol expected now req db =
     (if \<not> authorized expected req then (Unauthorized, db)
      else
       (case event req of
          None \<Rightarrow> (BadRequest ''Missing event'', db)
        | Some ev \<Rightarrow>
           (case event_type ev of
              None \<Rightarrow> (BadRequest ''Missing event'', db)
            | Some type \<Rightarrow>
               if type = [] then (BadRequest ''Missing event'', db)
               else
                (case app_user_id ev of
                   None \<Rightarrow> (Acknowledged AckSkipped, db)
                 | Some uid \<Rightarrow>
                    if uid = [] then (Acknowledged AckSkipped, db)
                    else apply_event pol now type uid ev db))))"

text \<open>
  The repository holds a second copy of the webhook's file, whose classifier of
  refund-like events is a function of its own.
\<close>

definition isRefundLikeEvent :: "string \<Rightarrow> string option \<Rightarrow> bool" where
  "isRefundLikeEvent type cancelReason =
     (let r = toUpperCase (case cancelReason of None \<Rightarrow> [] | Some x \<Rightarrow> x) in
      if type = ''REFUND'' \<or> type = ''REVOCATION'' then True
      else if type = ''CANCELLATION'' \<and> r = ''CUSTOMER_SUPPORT'' then True
      else False)"

section \<open>The client's routes (routes/subscription.ts)\<close>

definition subSourceFromProvider :: "Provider option \<Rightarrow> SubSource" where
  "subSourceFromProvider prov =
     (if prov = Some Google_play then Src_google_play
      else if prov = Some App_store then Src_app_store
      else if prov = Some Stripe then Src_stripe
      else Src_admin)"

text \<open>
  In each handler \<open>auth\<close> is what \<^verbatim>\<open>getUserId\<close> returns: the user id the identity
  provider attached to the request, or \<^verbatim>\<open>null\<close>.
\<close>

definition get_subscription :: "string option \<Rightarrow> Db \<Rightarrow> Response" where
  "get_subscription auth db =
     (case auth of
        None \<Rightarrow> Unauthorized
      | Some uid \<Rightarrow>
         if uid = [] then Unauthorized
         else Payload (toClientShape (subscriptions db uid)))"

text \<open>
  \<^verbatim>\<open>POST /subscription/activate\<close>, in two parts as well: \<open>apply_activation\<close> is what
  the handler does with a body that has passed its three checks.
\<close>

definition apply_activation ::
  "undefined_keys \<Rightarrow> date \<Rightarrow> string \<Rightarrow> ActivateBody \<Rightarrow> string \<Rightarrow> string \<Rightarrow> Provider \<Rightarrow> Platform
     \<Rightarrow> real \<Rightarrow> string \<Rightarrow> Db \<Rightarrow> Response \<times> Db" where
  "apply_activation pol now uid body pid t prov plat amount cur db =
     (let derivedPlan = planFromProductId (Some pid);
          pl =
            (if derivedPlan \<noteq> Free then derivedPlan
             else (case body_plan body of None \<Rightarrow> Free | Some x \<Rightarrow> x));
          expires = (if pl = Lifetime then None else body_periodEnd body);
          ledger =
            updateOne (\<lambda>p. transactionId p = t)
              (\<lambda>p. p\<lparr>amountCents := amount,
                     currency := toUpperCase cur,
                     purchasedAt := now,
                     expiresAt := write_field pol (js_value expires) (expiresAt p),
                     rawPayload := RawActivate body\<rparr>)
              \<lparr>pay_id = length (payments db),
               pay_userId = uid,
               platform = plat,
               provider = prov,
               productId = pid,
               transactionId = t,
               originalTransactionId = None,
               amountCents = amount,
               currency = toUpperCase cur,
               purchasedAt = now,
               expiresAt = expires,
               rawPayload = RawActivate body\<rparr>
              (payments db);
          paymentDoc = find (\<lambda>p. transactionId p = t) ledger;
          src = subSourceFromProvider (Some prov);
          doc =
            findOneAndUpdate pol uid
              \<lparr>upd_plan = pl, upd_status = Active, upd_source = src,
               upd_startedAt = Value now,
               upd_renewsAt = js_value expires,
               upd_canceledAt = Undefined,
               upd_latestPaymentId = js_value (map_option pay_id paymentDoc)\<rparr>
              (subscriptions db)
      in (Payload (toClientShape (Some doc)),
          \<lparr>subscriptions = (subscriptions db)(uid \<mapsto> doc),
           payments = ledger\<rparr>))"

text \<open>
  The three checks of the body, in the handler's order: the message of the first that
  fails, or \<open>None\<close> when the body passes. A body that passes has all the fields the
  handler goes on to read, so the last case of \<open>post_subscription_activate\<close> below is
  never taken (lemma \<open>activate_admitted\<close>).
\<close>

definition activate_check :: "ActivateBody \<Rightarrow> string option" where
  "activate_check body =
     (if \<not> truthy (body_productId body) \<or> \<not> truthy (body_transactionId body) \<or>
         body_provider body = None \<or> body_platform body = None
        then Some ''Missing productId/transactionId/provider/platform''
      else if (case body_amountCents body of
                 None \<Rightarrow> True
               | Some (Finite amount) \<Rightarrow> amount < 0
               | Some _ \<Rightarrow> True)
        then Some ''Invalid amountCents''
      else if \<not> truthy (body_currency body) then Some ''Missing currency''
      else None)"

definition post_subscription_activate ::
  "undefined_keys \<Rightarrow> date \<Rightarrow> string option \<Rightarrow> ActivateBody \<Rightarrow> Db \<Rightarrow> Response \<times> Db" where
  "post_subscription_activate pol now auth body db =
     (case auth of
        None \<Rightarrow> (Unauthorized, db)
      | Some uid \<Rightarrow>
         if uid = [] then (Unauthorized, db)
         else
          (case activate_check body of
             Some msg \<Rightarrow> (BadRequest msg, db)
           | None \<Rightarrow>
              (case (body_productId body, body_transactionId body, body_provider body,
                     body_platform body, body_amountCents body, body_currency body) of
                 (Some pid, Some t, Some prov, Some plat, Some (Finite amount), Some cur) \<Rightarrow>
                   apply_activation pol now uid body pid t prov plat amount cur db
               | _ \<Rightarrow> (BadRequest ''Missing productId/transactionId/provider/platform'', db))))"

text \<open>
  The three routes below load the user's document, assign to its fields and save it;
  assigning \<^verbatim>\<open>undefined\<close> to a field of a loaded document removes the field.
\<close>

definition post_subscription_cancel_auto_renew ::
  "date \<Rightarrow> string option \<Rightarrow> int option \<Rightarrow> Db \<Rightarrow> Response \<times> Db" where
  "post_subscription_cancel_auto_renew now auth body_period_end db =
     (case auth of
        None \<Rightarrow> (Unauthorized, db)
      | Some uid \<Rightarrow>
         if uid = [] then (Unauthorized, db)
         else
          (case subscriptions db uid of
             None \<Rightarrow> (NotFound, db)
           | Some subDoc \<Rightarrow>
              (let d1 =
                 (case body_period_end of
                    None \<Rightarrow> subDoc
                  | Some t \<Rightarrow> subDoc\<lparr>renewsAt := Some t\<rparr>);
                   d2 = d1\<lparr>status := Canceled, canceledAt := Some now\<rparr>
               in (Payload (toClientShape (Some d2)),
                   db\<lparr>subscriptions := (subscriptions db)(uid \<mapsto> d2)\<rparr>))))"

definition post_subscription_resume_auto_renew ::
  "string option \<Rightarrow> Db \<Rightarrow> Response \<times> Db" where
  "post_subscription_resume_auto_renew auth db =
     (case auth of
        None \<Rightarrow> (Unauthorized, db)
      | Some uid \<Rightarrow>
         if uid = [] then (Unauthorized, db)
         else
          (case subscriptions db uid of
             None \<Rightarrow> (NotFound, db)
           | Some subDoc \<Rightarrow>
              (let d = subDoc\<lparr>status := Active, canceledAt := None\<rparr>
               in (Payload (toClientShape (Some d)),
                   db\<lparr>subscriptions := (subscriptions db)(uid \<mapsto> d)\<rparr>))))"

definition post_subscription_switch_to_free ::
  "date \<Rightarrow> string option \<Rightarrow> Db \<Rightarrow> Response \<times> Db" where
  "post_subscription_switch_to_free now auth db =
     (case auth of
        None \<Rightarrow> (Unauthorized, db)
      | Some uid \<Rightarrow>
         if uid = [] then (Unauthorized, db)
         else
          (let d =
             (case subscriptions db uid of
                None \<Rightarrow>
                  \<lparr>userId = uid, plan = Free, status = Inactive, source = Src_admin,
                   startedAt = Some now, renewsAt = None, canceledAt = Some now,
                   latestPaymentId = None\<rparr>
              | Some subDoc \<Rightarrow>
                  subDoc\<lparr>plan := Free, status := Inactive, source := Src_admin,
                         renewsAt := None, canceledAt := Some now\<rparr>)
           in (Payload (toClientShape (Some d)),
               db\<lparr>subscriptions := (subscriptions db)(uid \<mapsto> d)\<rparr>)))"

section \<open>Sequences of deliveries\<close>




text \<open>The ledger's entries for a transaction, and the identity fields of an entry.\<close>

definition ledger_entries :: "string \<Rightarrow> Db \<Rightarrow> PaymentDocument list" where
  "ledger_entries t db = filter (\<lambda>p. transactionId p = t) (payments db)"

definition identity_fields :: "PaymentDocument \<Rightarrow> string \<times> Platform \<times> Provider \<times> string" where
  "identity_fields p = (pay_userId p, platform p, provider p, productId p)"



section \<open>Example requests and stores\<close>

definition empty_db :: Db where
  "empty_db = \<lparr>subscriptions = Map.empty, payments = []\<rparr>"

text \<open>A first purchase of the monthly product from the App Store, by user \<open>u1\<close>.\<close>

definition purchase_event :: RcEvent where
  "purchase_event =
     \<lparr>event_type = Some ''INITIAL_PURCHASE'', app_user_id = Some ''u1'',
      product_id = Some ''pkg.monthly'', transaction_id = Some ''t1'',
      original_transaction_id = None, expiration_at_ms = Some 2000,
      purchased_at_ms = Some 1000, store = Some ''app_store'', event_currency = None,
      cancel_reason = None\<rparr>"

definition webhook_request :: "RcEvent \<Rightarrow> WebhookRequest" where
  "webhook_request ev = \<lparr>authorization = None, event = Some ev\<rparr>"

text \<open>An activation of the yearly product in which the client declares the free plan.\<close>

definition activate_body :: ActivateBody where
  "activate_body =
     \<lparr>body_plan = Some Free, body_periodEnd = Some 2000,
      body_amountCents = Some (Finite 499), body_currency = Some ''usd'',
      body_productId = Some ''pkg.yearly'', body_transactionId = Some ''t1'',
      body_platform = Some Ios, body_provider = Some App_store\<rparr>"

text \<open>The store after the purchase above, handled at time 5 with no secret configured.\<close>

definition subscribed_db :: "undefined_keys \<Rightarrow> Db" where
  "subscribed_db pol =
     snd (post_webhooks_revenuecat pol None 5 (webhook_request purchase_event) empty_db)"

text \<open>
  Three more events for the same user: a plain cancellation that names no product, a
  refund, and the purchase delivered again with another currency and other times.
\<close>

definition cancellation_event :: RcEvent where
  "cancellation_event =
     \<lparr>event_type = Some ''CANCELLATION'', app_user_id = Some ''u1'', product_id = None,
      transaction_id = None, original_transaction_id = None, expiration_at_ms = None,
      purchased_at_ms = None, store = None, event_currency = None, cancel_reason = None\<rparr>"

definition refund_event :: RcEvent where
  "refund_event = cancellation_event\<lparr>event_type := Some ''REFUND''\<rparr>"

definition redelivered_event :: RcEvent where
  "redelivered_event =
     purchase_event\<lparr>event_currency := Some ''EUR'', purchased_at_ms := Some 3000,
                    expiration_at_ms := Some 4000\<rparr>"

text \<open>The store after user \<open>u1\<close>, with no subscription yet, has switched to free at time 9.\<close>

definition freed_db :: Db where
  "freed_db = snd (post_subscription_switch_to_free 9 (Some ''u1'') empty_db)"

section \<open>Lemmas on the handlers' parts\<close>

lemma activate_admitted:
  assumes "uid \<noteq> []" and "activate_check b = None"
  shows "\<exists>pid t prov plat a cur.
           body_productId b = Some pid \<and> pid \<noteq> [] \<and> body_transactionId b = Some t \<and> t \<noteq> [] \<and>
           body_provider b = Some prov \<and> body_platform b = Some plat \<and>
           body_amountCents b = Some (Finite a) \<and> 0 \<le> a \<and> body_currency b = Some cur \<and> cur \<noteq> [] \<and>
           post_subscription_activate pol now (Some uid) b db =
             apply_activation pol now uid b pid t prov plat a cur db"
  using assms
  by (auto simp: post_subscription_activate_def activate_check_def truthy_def
      split: if_splits option.splits jsnumber.splits)

lemma find_updateOne:
  assumes "\<And>p. transactionId (f p) = transactionId p" and "transactionId ins = t"
  shows "find (\<lambda>p. transactionId p = t) (updateOne (\<lambda>p. transactionId p = t) f ins ps) =
           Some (case find (\<lambda>p. transactionId p = t) ps of None \<Rightarrow> ins | Some p \<Rightarrow> f p)"
  using assms by (induction ps) auto

lemma apply_activation_doc:
  "subscriptions (snd (apply_activation pol now uid b pid t prov plat a cur db)) uid =
     Some (let pl = (if planFromProductId (Some pid) \<noteq> Free then planFromProductId (Some pid)
                     else (case body_plan b of None \<Rightarrow> Free | Some x \<Rightarrow> x)) in
       findOneAndUpdate pol uid
       \<lparr>upd_plan = pl,
        upd_status = Active,
        upd_source = subSourceFromProvider (Some prov),
        upd_startedAt = Value now,
        upd_renewsAt = js_value (if pl = Lifetime then None else body_periodEnd b),
        upd_canceledAt = Undefined,
        upd_latestPaymentId =
          Value (case find (\<lambda>p. transactionId p = t) (payments db) of
                   None \<Rightarrow> length (payments db) | Some p \<Rightarrow> pay_id p)\<rparr>
       (subscriptions db))"
  by (simp add: apply_activation_def Let_def find_updateOne js_value_def split: option.splits)

lemma apply_activation_response:
  "fst (apply_activation pol now uid b pid t prov plat a cur db) =
     Payload (toClientShape (subscriptions (snd (apply_activation pol now uid b pid t prov plat a cur db)) uid))"
  by (simp add: apply_activation_def Let_def)

lemma apply_activation_other:
  "u \<noteq> uid \<Longrightarrow> subscriptions (snd (apply_activation pol now uid b pid t prov plat a cur db)) u = subscriptions db u"
  by (simp add: apply_activation_def Let_def)

lemma activate_check_plan [simp]: "activate_check (b\<lparr>body_plan := q\<rparr>) = activate_check b"
  by (simp add: activate_check_def)

lemma planFromProductId_order:
  "planFromProductId (Some p) =
     (if str_includes p ''.monthly'' then Monthly
      else if str_includes p ''.yearly'' then Yearly
      else if str_includes p ''.lifetime'' then Lifetime
      else Free)"
  by (cases p) (auto simp: planFromProductId_def)


lemma webhook_accepts:
  assumes "authorized expected req" and "event req = Some ev" and "event_type ev = Some type"
    and "type \<noteq> []" and "app_user_id ev = Some uid" and "uid \<noteq> []"
  shows "post_webhooks_revenuecat pol expected now req db = apply_event pol now type uid ev db"
  using assms by (simp add: post_webhooks_revenuecat_def)


lemma apply_event_cancellation:
  assumes "cancel_reason ev \<noteq> Some ''CUSTOMER_SUPPORT''"
  shows "fst (apply_event pol now ''CANCELLATION'' uid ev db) = Acknowledged AckCanceled"
    and "payments (snd (apply_event pol now ''CANCELLATION'' uid ev db)) = payments db"
    and "\<exists>doc. subscriptions (snd (apply_event pol now ''CANCELLATION'' uid ev db)) uid = Some doc \<and>
           plan doc = planFromProductId (product_id ev) \<and> status doc = Canceled \<and>
           canceledAt doc = Some now \<and>
           renewsAt doc =
             (case expiration_at_ms ev of
                None \<Rightarrow> write_field pol Undefined (Option.bind (subscriptions db uid) renewsAt)
              | Some ms \<Rightarrow>
                 if ms \<noteq> 0 then Some ms
                 else write_field pol Undefined (Option.bind (subscriptions db uid) renewsAt)) \<and>
           startedAt doc = Option.bind (subscriptions db uid) startedAt \<and>
           latestPaymentId doc = Option.bind (subscriptions db uid) latestPaymentId"
  using assms
  by (auto simp: apply_event_def Let_def findOneAndUpdate_def js_value_def isPurchaseLike_def
      looksLikeRefund_def split: option.splits)

lemma subscribed_db_eq:
  "subscribed_db pol =
     \<lparr>subscriptions =
        [''u1'' \<mapsto> \<lparr>userId = ''u1'', plan = Monthly, status = Active, source = Src_app_store,
                     startedAt = Some 1000, renewsAt = Some 2000, canceledAt = None,
                     latestPaymentId = None\<rparr>],
      payments =
        [\<lparr>pay_id = 0, pay_userId = ''u1'', platform = Ios, provider = App_store,
          productId = ''pkg.monthly'', transactionId = ''t1'', originalTransactionId = None,
          amountCents = 0, currency = ''USD'', purchasedAt = 1000, expiresAt = Some 2000,
          rawPayload = RawWebhook purchase_event\<rparr>]\<rparr>"
  by (cases pol)
     (simp_all add: subscribed_db_def post_webhooks_revenuecat_def webhook_request_def
       authorized_def apply_event_def isPurchaseLike_def providerFromStore_def toLowerCase_def
       toLowerChar_def planFromProductId_def findOneAndUpdate_def js_value_def empty_db_def
       Let_def purchase_event_def)

lemma freed_db_eq:
  "freed_db =
     \<lparr>subscriptions =
        [''u1'' \<mapsto> \<lparr>userId = ''u1'', plan = Free, status = Inactive, source = Src_admin,
                     startedAt = Some 9, renewsAt = None, canceledAt = Some 9,
                     latestPaymentId = None\<rparr>],
      payments = []\<rparr>"
  by (simp add: freed_db_def post_subscription_switch_to_free_def empty_db_def Let_def)

lemma filter_updateOne:
  assumes "P ins" and "\<And>p. P p \<Longrightarrow> P (f p)"
  shows "filter P (updateOne P f ins ps) =
           (case filter P ps of [] \<Rightarrow> [ins] | e # es \<Rightarrow> f e # es)"
  using assms by (induction ps) (auto split: list.splits)










section \<open>The claims\<close>

text \<open>
  C1, at the input where the code leaves it. An event of type \<open>REFUND\<close> or
  \<open>REVOCATION\<close> for a user with an active subscription is acknowledged as ignored and
  the store is what it was: the handler's refund test, \<open>looksLikeRefund\<close>, knows the
  support-initiated cancellation only. The refund test of the repository's second
  copy of the handler, \<open>isRefundLikeEvent\<close>, accepts both types.
\<close>

theorem refund_event_is_ignored:
  "map_option status (subscriptions (subscribed_db pol) ''u1'') = Some Active
   \<and> post_webhooks_revenuecat pol None 6 (webhook_request refund_event) (subscribed_db pol) =
       (Acknowledged (AckIgnored ''REFUND''), subscribed_db pol)
   \<and> post_webhooks_revenuecat pol None 6
        (webhook_request (refund_event\<lparr>event_type := Some ''REVOCATION''\<rparr>)) (subscribed_db pol) =
       (Acknowledged (AckIgnored ''REVOCATION''), subscribed_db pol)
   \<and> isRefundLikeEvent ''REFUND'' (cancel_reason refund_event)
   \<and> isRefundLikeEvent ''REVOCATION'' (cancel_reason refund_event)"
  by (simp add: subscribed_db_eq post_webhooks_revenuecat_def webhook_request_def
       authorized_def apply_event_def isPurchaseLike_def looksLikeRefund_def
       isRefundLikeEvent_def Let_def refund_event_def cancellation_event_def)

text \<open>
  C2, as amended. For an activation by an identified user whose body passes the
  checks, the resulting plan is the plan derived from the product id when that is not
  free, and the plan the caller declares (free when it declares none) when the product
  id carries no marker. When the derived plan is not free, the declared plan changes
  neither the answer nor the subscription. A body with no product id is refused, so
  the declared plan is never a fallback for an absent product id.
\<close>

theorem activate_plan_fallback:
  assumes "uid \<noteq> []" and "activate_check b = None"
  shows "(\<exists>pid. body_productId b = Some pid \<and>
           map_option plan (subscriptions (snd (post_subscription_activate pol now (Some uid) b db)) uid) =
             Some (if planFromProductId (Some pid) \<noteq> Free then planFromProductId (Some pid)
                   else (case body_plan b of None \<Rightarrow> Free | Some x \<Rightarrow> x)))
       \<and> (planFromProductId (body_productId b) \<noteq> Free \<longrightarrow>
            fst (post_subscription_activate pol now (Some uid) (b\<lparr>body_plan := q\<rparr>) db) =
              fst (post_subscription_activate pol now (Some uid) b db) \<and>
            subscriptions (snd (post_subscription_activate pol now (Some uid) (b\<lparr>body_plan := q\<rparr>) db)) =
              subscriptions (snd (post_subscription_activate pol now (Some uid) b db)))
       \<and> post_subscription_activate pol now (Some uid) (b\<lparr>body_productId := None\<rparr>) db =
            (BadRequest ''Missing productId/transactionId/provider/platform'', db)"
proof -
  from activate_admitted[OF assms, of pol now db]
  obtain pid t prov plat a cur where
    f: "body_productId b = Some pid" "body_transactionId b = Some t"
       "body_provider b = Some prov" "body_platform b = Some plat"
       "body_amountCents b = Some (Finite a)" "body_currency b = Some cur"
    and e: "post_subscription_activate pol now (Some uid) b db =
             apply_activation pol now uid b pid t prov plat a cur db"
    by blast
  have cq: "activate_check (b\<lparr>body_plan := q\<rparr>) = None"
    using assms(2) by simp
  from activate_admitted[OF assms(1) cq, of pol now db] f
  have eq: "post_subscription_activate pol now (Some uid) (b\<lparr>body_plan := q\<rparr>) db =
             apply_activation pol now uid (b\<lparr>body_plan := q\<rparr>) pid t prov plat a cur db"
    by auto
  have p1: "map_option plan (subscriptions (snd (post_subscription_activate pol now (Some uid) b db)) uid) =
             Some (if planFromProductId (Some pid) \<noteq> Free then planFromProductId (Some pid)
                   else (case body_plan b of None \<Rightarrow> Free | Some x \<Rightarrow> x))"
    unfolding e by (simp add: apply_activation_doc findOneAndUpdate_def Let_def)
  have p2: "fst (post_subscription_activate pol now (Some uid) (b\<lparr>body_plan := q\<rparr>) db) =
              fst (post_subscription_activate pol now (Some uid) b db) \<and>
            subscriptions (snd (post_subscription_activate pol now (Some uid) (b\<lparr>body_plan := q\<rparr>) db)) =
              subscriptions (snd (post_subscription_activate pol now (Some uid) b db))"
    if d: "planFromProductId (body_productId b) \<noteq> Free"
  proof -
    have s: "subscriptions (snd (apply_activation pol now uid (b\<lparr>body_plan := q\<rparr>) pid t prov plat a cur db)) u =
             subscriptions (snd (apply_activation pol now uid b pid t prov plat a cur db)) u" for u
    proof (cases "u = uid")
      case True
      then show ?thesis using d f(1) by (simp add: apply_activation_doc Let_def)
    next
      case False
      then show ?thesis by (simp add: apply_activation_other)
    qed
    then have s': "subscriptions (snd (apply_activation pol now uid (b\<lparr>body_plan := q\<rparr>) pid t prov plat a cur db)) =
             subscriptions (snd (apply_activation pol now uid b pid t prov plat a cur db))"
      by (rule ext)
    show ?thesis unfolding e eq by (simp add: apply_activation_response s')
  qed
  have p3: "post_subscription_activate pol now (Some uid) (b\<lparr>body_productId := None\<rparr>) db =
            (BadRequest ''Missing productId/transactionId/provider/platform'', db)"
    using assms(1) by (simp add: post_subscription_activate_def activate_check_def truthy_def)
  show ?thesis using f(1) p1 p2 p3 by blast
qed

theorem activate_plan_fallback_witness:
  "''u1'' \<noteq> [] \<and> activate_check activate_body = None
   \<and> planFromProductId (body_productId activate_body) \<noteq> Free
   \<and> map_option plan
        (subscriptions (snd (post_subscription_activate Dropped 7 (Some ''u1'') activate_body empty_db))
           ''u1'') = Some Yearly
   \<and> fst (post_subscription_activate Dropped 7 (Some ''u1'')
          (activate_body\<lparr>body_plan := Some Lifetime\<rparr>) empty_db) =
       fst (post_subscription_activate Dropped 7 (Some ''u1'') activate_body empty_db)"
proof -
  have h: "activate_check activate_body = None"
    by (simp add: activate_check_def activate_body_def truthy_def)
  have d: "planFromProductId (body_productId activate_body) = Yearly"
    by (simp add: activate_body_def planFromProductId_def)
  show ?thesis
    using activate_plan_fallback [of "''u1''" activate_body Dropped 7 empty_db "Some Lifetime"] h d
    by (auto simp: activate_body_def)
qed

text \<open>
  C2 as stated fails: with the product id \<open>com.app.pro\<close>, present and without a marker,
  the resulting plan is the one the caller declares, lifetime in one request and
  monthly in the other.
\<close>

theorem activate_client_plan_counterexample:
  "activate_check (activate_body\<lparr>body_productId := Some ''com.app.pro'', body_plan := Some Lifetime\<rparr>) = None
   \<and> planFromProductId (Some ''com.app.pro'') = Free
   \<and> map_option plan
        (subscriptions (snd (post_subscription_activate Dropped 7 (Some ''u1'')
           (activate_body\<lparr>body_productId := Some ''com.app.pro'', body_plan := Some Lifetime\<rparr>) empty_db))
           ''u1'') = Some Lifetime
   \<and> map_option plan
        (subscriptions (snd (post_subscription_activate Dropped 7 (Some ''u1'')
           (activate_body\<lparr>body_productId := Some ''com.app.pro'', body_plan := Some Monthly\<rparr>) empty_db))
           ''u1'') = Some Monthly"
  by (simp add: post_subscription_activate_def activate_check_def activate_body_def truthy_def
      apply_activation_def planFromProductId_def findOneAndUpdate_def Let_def)

text \<open>
  C3, at the input where the code leaves it. The webhook writes every field of a
  payment on insert only: the purchase delivered again under the same transaction id,
  with another currency and other times, leaves the ledger as the first delivery
  made it. The activation path overwrites the currency of the same entry.
\<close>

theorem webhook_redelivery_keeps_first_values:
  "payments
     (snd (post_webhooks_revenuecat pol None 6 (webhook_request redelivered_event)
        (subscribed_db pol))) = payments (subscribed_db pol)
   \<and> map currency (payments (subscribed_db pol)) = [''USD'']
   \<and> map purchasedAt (payments (subscribed_db pol)) = [1000]
   \<and> map expiresAt (payments (subscribed_db pol)) = [Some 2000]
   \<and> map rawPayload (payments (subscribed_db pol)) = [RawWebhook purchase_event]
   \<and> map currency
        (payments
           (snd (post_subscription_activate pol 6 (Some ''u1'')
              (activate_body\<lparr>body_currency := Some ''eur''\<rparr>) (subscribed_db pol)))) = [''EUR'']"
  by (simp add: subscribed_db_eq post_webhooks_revenuecat_def webhook_request_def
       authorized_def apply_event_def isPurchaseLike_def Let_def redelivered_event_def
       purchase_event_def post_subscription_activate_def activate_check_def activate_body_def
       truthy_def apply_activation_def toUpperCase_def toUpperChar_def)

text \<open>
  C4, as amended. A cancellation that is not refund-like, for a user who has a
  subscription, sets the status to canceled and \<open>canceledAt\<close> to the time of the
  request, and sets the plan to the plan derived from the event's product id (free
  when the event names none), whatever the stored plan was. \<open>renewsAt\<close> is the event's
  expiry when the event has one and is unchanged otherwise, and then the projected
  period end is unchanged. An expiry of zero is left aside.
\<close>

theorem cancellation_event_writes_event_plan:
  assumes "authorized expected req" and "event req = Some ev"
    and "event_type ev = Some ''CANCELLATION''"
    and "cancel_reason ev \<noteq> Some ''CUSTOMER_SUPPORT''"
    and "app_user_id ev = Some uid" and "uid \<noteq> []"
    and "subscriptions db uid = Some old"
    and "expiration_at_ms ev \<noteq> Some 0"
  shows "\<exists>doc. subscriptions (snd (post_webhooks_revenuecat Dropped expected now req db)) uid = Some doc
           \<and> status doc = Canceled
           \<and> canceledAt doc = Some now
           \<and> plan doc = planFromProductId (product_id ev)
           \<and> renewsAt doc =
               (case expiration_at_ms ev of None \<Rightarrow> renewsAt old | Some ms \<Rightarrow> Some ms)
           \<and> (expiration_at_ms ev = None \<longrightarrow>
                periodEnd (toClientShape (Some doc)) = periodEnd (toClientShape (Some old)))"
proof -
  have e: "post_webhooks_revenuecat Dropped expected now req db =
             apply_event Dropped now ''CANCELLATION'' uid ev db"
    using assms by (simp add: webhook_accepts)
  from apply_event_cancellation(3) [OF assms(4), of Dropped now uid db]
  obtain doc where
    d: "subscriptions (snd (apply_event Dropped now ''CANCELLATION'' uid ev db)) uid = Some doc"
      "plan doc = planFromProductId (product_id ev)" "status doc = Canceled"
      "canceledAt doc = Some now"
    and r: "renewsAt doc =
           (case expiration_at_ms ev of
              None \<Rightarrow> write_field Dropped Undefined (Option.bind (subscriptions db uid) renewsAt)
            | Some ms \<Rightarrow>
               if ms \<noteq> 0 then Some ms
               else write_field Dropped Undefined (Option.bind (subscriptions db uid) renewsAt))"
    by blast
  have r': "renewsAt doc =
              (case expiration_at_ms ev of None \<Rightarrow> renewsAt old | Some ms \<Rightarrow> Some ms)"
    using r assms(7,8) by (simp split: option.splits)
  then have "expiration_at_ms ev = None \<longrightarrow>
               periodEnd (toClientShape (Some doc)) = periodEnd (toClientShape (Some old))"
    by (simp add: toClientShape_def Let_def)
  with d r' show ?thesis
    unfolding e by (intro exI [of _ doc]) simp
qed

theorem cancellation_event_writes_event_plan_witness:
  "authorized None (webhook_request cancellation_event)
   \<and> event_type cancellation_event = Some ''CANCELLATION''
   \<and> cancel_reason cancellation_event \<noteq> Some ''CUSTOMER_SUPPORT''
   \<and> app_user_id cancellation_event = Some ''u1''
   \<and> expiration_at_ms cancellation_event = None
   \<and> subscriptions (subscribed_db Dropped) ''u1'' =
       Some \<lparr>userId = ''u1'', plan = Monthly, status = Active, source = Src_app_store,
             startedAt = Some 1000, renewsAt = Some 2000, canceledAt = None,
             latestPaymentId = None\<rparr>
   \<and> (\<exists>doc. subscriptions
               (snd (post_webhooks_revenuecat Dropped None 6 (webhook_request cancellation_event)
                  (subscribed_db Dropped))) ''u1'' = Some doc
         \<and> status doc = Canceled \<and> canceledAt doc = Some 6 \<and> plan doc = Free
         \<and> renewsAt doc = Some 2000 \<and> periodEnd (toClientShape (Some doc)) = Some 2000)"
proof -
  have h: "authorized None (webhook_request cancellation_event)"
    "event (webhook_request cancellation_event) = Some cancellation_event"
    "event_type cancellation_event = Some ''CANCELLATION''"
    "cancel_reason cancellation_event \<noteq> Some ''CUSTOMER_SUPPORT''"
    "app_user_id cancellation_event = Some ''u1''"
    "''u1'' \<noteq> []"
    by (simp_all add: authorized_def webhook_request_def cancellation_event_def)
  have o: "subscriptions (subscribed_db Dropped) ''u1'' =
            Some \<lparr>userId = ''u1'', plan = Monthly, status = Active, source = Src_app_store,
                  startedAt = Some 1000, renewsAt = Some 2000, canceledAt = None,
                  latestPaymentId = None\<rparr>"
    by (simp add: subscribed_db_eq)
  have z: "expiration_at_ms cancellation_event \<noteq> Some 0"
    by (simp add: cancellation_event_def)
  have p: "planFromProductId (product_id cancellation_event) = Free"
    "expiration_at_ms cancellation_event = None"
    by (simp_all add: cancellation_event_def planFromProductId_def)
  show ?thesis
    using cancellation_event_writes_event_plan [OF h o z, of 6] h p o
    by (auto simp: toClientShape_def)
qed

text \<open>
  C4 as stated fails: a plain cancellation that names no product turns the stored
  monthly plan into free.
\<close>

theorem cancellation_event_counterexample:
  "map_option plan (subscriptions (subscribed_db Dropped) ''u1'') = Some Monthly
   \<and> map_option plan
        (subscriptions
           (snd (post_webhooks_revenuecat Dropped None 6 (webhook_request cancellation_event)
              (subscribed_db Dropped))) ''u1'') = Some Free
   \<and> map_option plan (subscriptions (subscribed_db Written) ''u1'') = Some Monthly
   \<and> map_option plan
        (subscriptions
           (snd (post_webhooks_revenuecat Written None 6 (webhook_request cancellation_event)
              (subscribed_db Written))) ''u1'') = Some Free"
  by (simp add: subscribed_db_eq post_webhooks_revenuecat_def webhook_request_def
       authorized_def apply_event_def isPurchaseLike_def looksLikeRefund_def
       providerFromStore_def toLowerCase_def
       planFromProductId_def findOneAndUpdate_def js_value_def
       Let_def cancellation_event_def)

text \<open>
  C5, at the input where the code leaves it. The purchase-like update names
  \<open>canceledAt\<close>, and \<open>renewsAt\<close> for an event without expiry, with the value
  \<^verbatim>\<open>undefined\<close>, and the store drops such keys. A user whose \<open>canceledAt\<close> was set
  (after a switch to free) is active on the monthly plan after the purchase and still
  has that \<open>canceledAt\<close>; and a purchase-like event without expiry leaves the
  \<open>renewsAt\<close> the user had.
\<close>

theorem purchase_keeps_stored_canceledAt:
  "map_option canceledAt (subscriptions freed_db ''u1'') = Some (Some 9)
   \<and> post_webhooks_revenuecat Dropped None 5 (webhook_request purchase_event) freed_db =
       (Acknowledged AckOk,
        \<lparr>subscriptions =
           [''u1'' \<mapsto> \<lparr>userId = ''u1'', plan = Monthly, status = Active, source = Src_app_store,
                        startedAt = Some 1000, renewsAt = Some 2000, canceledAt = Some 9,
                        latestPaymentId = None\<rparr>],
         payments =
           [\<lparr>pay_id = 0, pay_userId = ''u1'', platform = Ios, provider = App_store,
             productId = ''pkg.monthly'', transactionId = ''t1'', originalTransactionId = None,
             amountCents = 0, currency = ''USD'', purchasedAt = 1000, expiresAt = Some 2000,
             rawPayload = RawWebhook purchase_event\<rparr>]\<rparr>)
   \<and> map_option renewsAt (subscriptions (subscribed_db Dropped) ''u1'') = Some (Some 2000)
   \<and> map_option renewsAt
        (subscriptions
           (snd (post_webhooks_revenuecat Dropped None 6
              (webhook_request (purchase_event\<lparr>expiration_at_ms := None\<rparr>)) (subscribed_db Dropped)))
           ''u1'') = Some (Some 2000)"
  by (simp add: freed_db_eq subscribed_db_eq post_webhooks_revenuecat_def webhook_request_def
       authorized_def apply_event_def isPurchaseLike_def providerFromStore_def toLowerCase_def
       toLowerChar_def planFromProductId_def findOneAndUpdate_def js_value_def
       Let_def purchase_event_def)




text \<open>
  C7, as amended. A product id that contains \<open>.yearly\<close> and does not contain
  \<open>.monthly\<close> yields the yearly plan, also in an activation whose caller declares the
  free plan. The markers \<open>.monthly\<close>, \<open>.yearly\<close>, \<open>.lifetime\<close> are looked for in that order
  and the first found decides; no marker, or no product id, yields free.
\<close>

theorem yearly_marker_without_monthly:
  "planFromProductId None = Free
   \<and> planFromProductId (Some p) =
       (if str_includes p ''.monthly'' then Monthly
        else if str_includes p ''.yearly'' then Yearly
        else if str_includes p ''.lifetime'' then Lifetime
        else Free)
   \<and> (str_includes p ''.yearly'' \<and> \<not> str_includes p ''.monthly'' \<longrightarrow>
        planFromProductId (Some p) = Yearly \<and>
        (uid \<noteq> [] \<and> activate_check b = None \<and> body_productId b = Some p \<and>
         body_plan b = Some Free \<longrightarrow>
           map_option plan
             (subscriptions (snd (post_subscription_activate pol now (Some uid) b db)) uid) =
           Some Yearly))"
proof -
  have "map_option plan
             (subscriptions (snd (post_subscription_activate pol now (Some uid) b db)) uid) =
           Some Yearly"
    if "str_includes p ''.yearly''" "\<not> str_includes p ''.monthly''" "uid \<noteq> []"
       "activate_check b = None" "body_productId b = Some p"
  proof -
    from activate_admitted[OF that(3,4), of pol now db] that(5)
    obtain t prov plat a cur where
      "post_subscription_activate pol now (Some uid) b db =
         apply_activation pol now uid b p t prov plat a cur db"
      by auto
    then show ?thesis
      using that(1,2)
      by (simp add: apply_activation_doc Let_def findOneAndUpdate_def planFromProductId_order)
  qed
  then show ?thesis
    by (auto simp: planFromProductId_order planFromProductId_def)
qed

theorem yearly_marker_without_monthly_witness:
  "str_includes ''pkg.yearly'' ''.yearly'' \<and> \<not> str_includes ''pkg.yearly'' ''.monthly''
   \<and> planFromProductId (Some ''pkg.yearly'') = Yearly
   \<and> ''u1'' \<noteq> [] \<and> activate_check activate_body = None
   \<and> body_productId activate_body = Some ''pkg.yearly'' \<and> body_plan activate_body = Some Free
   \<and> map_option plan
        (subscriptions (snd (post_subscription_activate Written 7 (Some ''u1'') activate_body empty_db))
           ''u1'') = Some Yearly"
proof -
  have h: "activate_check activate_body = None"
    by (simp add: activate_check_def activate_body_def truthy_def)
  have f: "body_productId activate_body = Some ''pkg.yearly''" "body_plan activate_body = Some Free"
    by (simp_all add: activate_body_def)
  have i: "str_includes ''pkg.yearly'' ''.yearly''" "\<not> str_includes ''pkg.yearly'' ''.monthly''"
    by simp_all
  show ?thesis
    using yearly_marker_without_monthly [of "''pkg.yearly''" "''u1''" activate_body Written 7 empty_db]
      h f i
    by simp
qed

text \<open>
  C7 as stated fails: \<open>pkg.monthly.yearly\<close> contains \<open>.yearly\<close> and yields the monthly
  plan, since \<open>.monthly\<close> is looked for first.
\<close>

theorem yearly_marker_counterexample:
  "str_includes ''pkg.monthly.yearly'' ''.yearly''
   \<and> planFromProductId (Some ''pkg.monthly.yearly'') = Monthly"
  by (simp add: planFromProductId_def)

text \<open>
  C8. An activation whose body lacks the product id, the transaction id, the provider
  or the platform, or whose amount is not a finite number of at least zero, or whose
  currency is empty, changes nothing in the store, and an identified caller is
  answered with status 400 and the message of the first check that fails.
\<close>

theorem activate_rejects_bad_request:
  assumes "\<not> truthy (body_productId b) \<or> \<not> truthy (body_transactionId b) \<or>
           body_provider b = None \<or> body_platform b = None \<or>
           (\<nexists>a. body_amountCents b = Some (Finite a) \<and> 0 \<le> a) \<or>
           \<not> truthy (body_currency b)"
  shows "snd (post_subscription_activate pol now auth b db) = db
       \<and> (\<exists>msg. activate_check b = Some msg \<and>
             (\<forall>uid. uid \<noteq> [] \<longrightarrow>
                post_subscription_activate pol now (Some uid) b db = (BadRequest msg, db)))"
proof -
  have "activate_check b \<noteq> None"
    using assms by (auto simp: activate_check_def split: option.splits jsnumber.splits)
  then obtain msg where m: "activate_check b = Some msg"
    by auto
  then show ?thesis
    by (auto simp: post_subscription_activate_def split: option.splits)
qed

theorem activate_rejects_bad_request_witness:
  "\<not> truthy (body_transactionId (activate_body\<lparr>body_transactionId := None\<rparr>))
   \<and> post_subscription_activate Dropped 7 (Some ''u1'')
        (activate_body\<lparr>body_transactionId := None\<rparr>) (subscribed_db Dropped) =
       (BadRequest ''Missing productId/transactionId/provider/platform'', subscribed_db Dropped)"
proof -
  have h: "\<not> truthy (body_transactionId (activate_body\<lparr>body_transactionId := None\<rparr>))"
    by (simp add: truthy_def)
  have c: "activate_check (activate_body\<lparr>body_transactionId := None\<rparr>) =
             Some ''Missing productId/transactionId/provider/platform''"
    by (simp add: activate_check_def truthy_def)
  show ?thesis
    using activate_rejects_bad_request
      [of "activate_body\<lparr>body_transactionId := None\<rparr>" Dropped 7 "Some ''u1''" "subscribed_db Dropped"]
      h c
    by auto
qed

text \<open>
  C9. The projection of a subscription has \<open>autoRenew\<close> exactly when the plan is
  neither free nor lifetime and the status is active; it is false for every lifetime
  subscription; and the projection of no subscription is the free, inactive shape with
  no renewal and no period end.
\<close>

theorem toClientShape_autoRenew:
  fixes doc :: SubscriptionDocument
  shows "autoRenew (toClientShape (Some doc)) =
           (plan doc \<noteq> Free \<and> plan doc \<noteq> Lifetime \<and> status doc = Active)
         \<and> \<not> autoRenew (toClientShape (Some (doc\<lparr>plan := Lifetime\<rparr>)))
         \<and> toClientShape None =
             \<lparr>c_plan = Free, c_status = Inactive, autoRenew = False, periodEnd = None,
              storageLimitGb = None\<rparr>"
  by (auto simp: toClientShape_def Let_def)

text \<open>
  C10. Resuming auto-renewal looks at no field of the user's subscription: it sets the
  status to active and removes \<open>canceledAt\<close>, and the plan, \<open>renewsAt\<close> and the source
  stay. After a switch to free, resuming leaves the user active on the free plan.
\<close>

theorem resume_auto_renew_keeps_plan:
  assumes "uid \<noteq> []"
  shows "(subscriptions db uid = Some d \<longrightarrow>
            post_subscription_resume_auto_renew (Some uid) db =
              (Payload (toClientShape (Some (d\<lparr>status := Active, canceledAt := None\<rparr>))),
               db\<lparr>subscriptions :=
                    (subscriptions db)(uid \<mapsto> d\<lparr>status := Active, canceledAt := None\<rparr>)\<rparr>)
            \<and> plan (d\<lparr>status := Active, canceledAt := None\<rparr>) = plan d
            \<and> renewsAt (d\<lparr>status := Active, canceledAt := None\<rparr>) = renewsAt d
            \<and> source (d\<lparr>status := Active, canceledAt := None\<rparr>) = source d)
       \<and> (\<exists>d'. subscriptions
                  (snd (post_subscription_resume_auto_renew (Some uid)
                     (snd (post_subscription_switch_to_free now (Some uid) db)))) uid = Some d'
               \<and> plan d' = Free \<and> status d' = Active \<and> canceledAt d' = None)
       \<and> (\<exists>c. fst (post_subscription_resume_auto_renew (Some uid)
                     (snd (post_subscription_switch_to_free now (Some uid) db))) = Payload c
               \<and> c_plan c = Free \<and> c_status c = Active)"
  using assms
  by (auto simp: post_subscription_resume_auto_renew_def post_subscription_switch_to_free_def
      Let_def toClientShape_def split: option.splits)

theorem resume_auto_renew_keeps_plan_witness:
  "''u1'' \<noteq> []
   \<and> subscriptions freed_db ''u1'' =
       Some \<lparr>userId = ''u1'', plan = Free, status = Inactive, source = Src_admin,
             startedAt = Some 9, renewsAt = None, canceledAt = Some 9,
             latestPaymentId = None\<rparr>
   \<and> subscriptions (snd (post_subscription_resume_auto_renew (Some ''u1'') freed_db)) ''u1'' =
       Some \<lparr>userId = ''u1'', plan = Free, status = Active, source = Src_admin,
             startedAt = Some 9, renewsAt = None, canceledAt = None,
             latestPaymentId = None\<rparr>
   \<and> fst (post_subscription_resume_auto_renew (Some ''u1'') freed_db) =
       Payload \<lparr>c_plan = Free, c_status = Active, autoRenew = False, periodEnd = None,
                storageLimitGb = None\<rparr>"
proof -
  have d: "subscriptions freed_db ''u1'' =
       Some \<lparr>userId = ''u1'', plan = Free, status = Inactive, source = Src_admin,
             startedAt = Some 9, renewsAt = None, canceledAt = Some 9,
             latestPaymentId = None\<rparr>"
    by (simp add: freed_db_def post_subscription_switch_to_free_def empty_db_def Let_def)
  show ?thesis
    using resume_auto_renew_keeps_plan [of "''u1''" freed_db
        "\<lparr>userId = ''u1'', plan = Free, status = Inactive, source = Src_admin,
          startedAt = Some 9, renewsAt = None, canceledAt = Some 9,
          latestPaymentId = None\<rparr>" 9] d
    by (simp add: toClientShape_def)
qed

section \<open>Further properties of the handlers\<close>

text \<open>
  An event with a type and no user id (absent or empty) is acknowledged as skipped
  and leaves the store as it is.
\<close>

theorem webhook_skips_missing_user:
  assumes "authorized expected req" and "event req = Some ev" and "truthy (event_type ev)"
    and "\<not> truthy (app_user_id ev)"
  shows "post_webhooks_revenuecat pol expected now req db = (Acknowledged AckSkipped, db)"
  using assms
  by (auto simp: post_webhooks_revenuecat_def truthy_def split: option.splits)

theorem webhook_skips_missing_user_witness:
  "authorized None (webhook_request (purchase_event\<lparr>app_user_id := None\<rparr>))
   \<and> truthy (event_type (purchase_event\<lparr>app_user_id := None\<rparr>))
   \<and> \<not> truthy (app_user_id (purchase_event\<lparr>app_user_id := None\<rparr>))
   \<and> post_webhooks_revenuecat Written None 5
        (webhook_request (purchase_event\<lparr>app_user_id := None\<rparr>)) empty_db =
       (Acknowledged AckSkipped, empty_db)"
proof -
  have h: "authorized None (webhook_request (purchase_event\<lparr>app_user_id := None\<rparr>))"
    "event (webhook_request (purchase_event\<lparr>app_user_id := None\<rparr>)) =
       Some (purchase_event\<lparr>app_user_id := None\<rparr>)"
    "truthy (event_type (purchase_event\<lparr>app_user_id := None\<rparr>))"
    "\<not> truthy (app_user_id (purchase_event\<lparr>app_user_id := None\<rparr>))"
    by (simp_all add: authorized_def webhook_request_def purchase_event_def truthy_def)
  show ?thesis
    using webhook_skips_missing_user [OF h, of Written 5 empty_db] h
    by simp
qed

text \<open>
  A cancellation whose reason is \<open>CUSTOMER_SUPPORT\<close> revokes: the user's plan is
  free, the status inactive and \<open>canceledAt\<close> the time of the request; the ledger is
  untouched. The update holds \<^verbatim>\<open>undefined\<close> for \<open>renewsAt\<close>, which clears it where the
  store writes such keys and leaves it where the store drops them.
\<close>

theorem support_cancellation_revokes:
  assumes "authorized expected req" and "event req = Some ev"
    and "event_type ev = Some ''CANCELLATION''"
    and "cancel_reason ev = Some ''CUSTOMER_SUPPORT''"
    and "app_user_id ev = Some uid" and "uid \<noteq> []"
  shows "fst (post_webhooks_revenuecat pol expected now req db) = Acknowledged AckRevoked
       \<and> payments (snd (post_webhooks_revenuecat pol expected now req db)) = payments db
       \<and> (\<exists>doc. subscriptions (snd (post_webhooks_revenuecat pol expected now req db)) uid = Some doc
             \<and> plan doc = Free \<and> status doc = Inactive \<and> canceledAt doc = Some now
             \<and> renewsAt doc =
                 (case pol of
                    Written \<Rightarrow> None
                  | Dropped \<Rightarrow> Option.bind (subscriptions db uid) renewsAt))"
proof -
  have e: "post_webhooks_revenuecat pol expected now req db =
             apply_event pol now ''CANCELLATION'' uid ev db"
    using assms by (simp add: webhook_accepts)
  show ?thesis
    unfolding e using assms(4)
    by (cases pol)
       (simp_all add: apply_event_def Let_def isPurchaseLike_def looksLikeRefund_def
         findOneAndUpdate_def)
qed

theorem support_cancellation_revokes_witness:
  "authorized None (webhook_request (cancellation_event\<lparr>cancel_reason := Some ''CUSTOMER_SUPPORT''\<rparr>))
   \<and> map_option renewsAt (subscriptions (subscribed_db Written) ''u1'') = Some (Some 2000)
   \<and> fst (post_webhooks_revenuecat Written None 6
          (webhook_request (cancellation_event\<lparr>cancel_reason := Some ''CUSTOMER_SUPPORT''\<rparr>))
          (subscribed_db Written)) = Acknowledged AckRevoked
   \<and> (\<exists>doc. subscriptions
               (snd (post_webhooks_revenuecat Written None 6
                  (webhook_request (cancellation_event\<lparr>cancel_reason := Some ''CUSTOMER_SUPPORT''\<rparr>))
                  (subscribed_db Written))) ''u1'' = Some doc
         \<and> plan doc = Free \<and> status doc = Inactive \<and> canceledAt doc = Some 6
         \<and> renewsAt doc = None)"
proof -
  let ?ev = "cancellation_event\<lparr>cancel_reason := Some ''CUSTOMER_SUPPORT''\<rparr>"
  have h: "authorized None (webhook_request ?ev)"
    "event (webhook_request ?ev) = Some ?ev"
    "event_type ?ev = Some ''CANCELLATION''"
    "cancel_reason ?ev = Some ''CUSTOMER_SUPPORT''"
    "app_user_id ?ev = Some ''u1''"
    "''u1'' \<noteq> []"
    by (simp_all add: authorized_def webhook_request_def cancellation_event_def)
  have o: "map_option renewsAt (subscriptions (subscribed_db Written) ''u1'') = Some (Some 2000)"
    by (simp add: subscribed_db_eq)
  show ?thesis
    using support_cancellation_revokes [OF h, of Written 6 "subscribed_db Written"] h o
    by auto
qed

text \<open>
  An admitted activation for a transaction the ledger already has keeps the one
  entry and its identity fields, and overwrites the amount, the currency (in upper
  case), the purchase time and the raw payload with the request's. The expiry is
  overwritten by the request's period end; when the request has none, or the plan is
  lifetime, the update holds \<^verbatim>\<open>undefined\<close> for it.
\<close>

theorem activate_overwrites_mutable_fields:
  assumes "uid \<noteq> []" and "activate_check b = None" and "body_transactionId b = Some t"
    and "ledger_entries t db = [e]"
  shows "\<exists>e' a cur.
           ledger_entries t (snd (post_subscription_activate pol now (Some uid) b db)) = [e'] \<and>
           identity_fields e' = identity_fields e \<and>
           body_amountCents b = Some (Finite a) \<and> amountCents e' = a \<and>
           body_currency b = Some cur \<and> currency e' = toUpperCase cur \<and>
           purchasedAt e' = now \<and> rawPayload e' = RawActivate b \<and>
           expiresAt e' =
             (case (if map_option plan
                         (subscriptions (snd (post_subscription_activate pol now (Some uid) b db))
                            uid) = Some Lifetime
                    then None else body_periodEnd b) of
                Some x \<Rightarrow> Some x
              | None \<Rightarrow> (case pol of Written \<Rightarrow> None | Dropped \<Rightarrow> expiresAt e))"
proof -
  from activate_admitted [OF assms(1,2), of pol now db] assms(3)
  obtain pid prov plat a cur where
    f: "body_amountCents b = Some (Finite a)" "body_currency b = Some cur"
    and e: "post_subscription_activate pol now (Some uid) b db =
          apply_activation pol now uid b pid t prov plat a cur db"
    by auto
  let ?pl = "if planFromProductId (Some pid) \<noteq> Free then planFromProductId (Some pid)
             else (case body_plan b of None \<Rightarrow> Free | Some x \<Rightarrow> x)"
  let ?expires = "if ?pl = Lifetime then None else body_periodEnd b"
  have p: "map_option plan
             (subscriptions (snd (apply_activation pol now uid b pid t prov plat a cur db)) uid) =
           Some ?pl"
    by (simp add: apply_activation_doc Let_def findOneAndUpdate_def)
  have l: "ledger_entries t (snd (apply_activation pol now uid b pid t prov plat a cur db)) =
          [e\<lparr>amountCents := a, currency := toUpperCase cur, purchasedAt := now,
             expiresAt := write_field pol (js_value ?expires) (expiresAt e),
             rawPayload := RawActivate b\<rparr>]"
    using assms(4)
    unfolding ledger_entries_def apply_activation_def Let_def snd_conv Db.simps
    by (subst filter_updateOne) simp_all
  have w: "write_field pol (js_value ?expires) (expiresAt e) =
             (case ?expires of
                Some x \<Rightarrow> Some x
              | None \<Rightarrow> (case pol of Written \<Rightarrow> None | Dropped \<Rightarrow> expiresAt e))"
    by (cases pol; cases ?expires) (simp_all add: js_value_def)
  show ?thesis
    unfolding e p l using f w by (simp add: identity_fields_def)
qed

theorem activate_overwrites_mutable_fields_witness:
  "''u2'' \<noteq> [] \<and> activate_check activate_body = None
   \<and> body_transactionId activate_body = Some ''t1''
   \<and> map currency (ledger_entries ''t1'' (subscribed_db Dropped)) = [''USD'']
   \<and> map identity_fields (ledger_entries ''t1'' (subscribed_db Dropped)) =
       [(''u1'', Ios, App_store, ''pkg.monthly'')]
   \<and> (\<exists>e'. ledger_entries ''t1''
               (snd (post_subscription_activate Dropped 6 (Some ''u2'') activate_body
                  (subscribed_db Dropped))) = [e']
         \<and> identity_fields e' = (''u1'', Ios, App_store, ''pkg.monthly'')
         \<and> amountCents e' = 499 \<and> currency e' = ''USD'' \<and> purchasedAt e' = 6
         \<and> rawPayload e' = RawActivate activate_body)"
proof -
  have h: "''u2'' \<noteq> []" "activate_check activate_body = None"
    "body_transactionId activate_body = Some ''t1''"
    by (simp_all add: activate_check_def activate_body_def truthy_def)
  have l: "ledger_entries ''t1'' (subscribed_db Dropped) =
           [\<lparr>pay_id = 0, pay_userId = ''u1'', platform = Ios, provider = App_store,
             productId = ''pkg.monthly'', transactionId = ''t1'', originalTransactionId = None,
             amountCents = 0, currency = ''USD'', purchasedAt = 1000, expiresAt = Some 2000,
             rawPayload = RawWebhook purchase_event\<rparr>]"
    by (simp add: subscribed_db_eq ledger_entries_def)
  have b: "body_amountCents activate_body = Some (Finite 499)"
    "body_currency activate_body = Some ''usd''" "toUpperCase ''usd'' = ''USD''"
    by (simp_all add: activate_body_def toUpperCase_def toUpperChar_def)
  show ?thesis
    using activate_overwrites_mutable_fields [OF h l, of Dropped 6] h l b
    by (auto simp: identity_fields_def)
qed

text \<open>
  For a user with no subscription, resuming and cancelling auto-renewal answer
  404 and create nothing.
\<close>

theorem resume_and_cancel_need_a_row:
  assumes "uid \<noteq> []" and "subscriptions db uid = None"
  shows "post_subscription_resume_auto_renew (Some uid) db = (NotFound, db)
       \<and> post_subscription_cancel_auto_renew now (Some uid) pe db = (NotFound, db)"
  using assms
  by (simp add: post_subscription_resume_auto_renew_def post_subscription_cancel_auto_renew_def)

theorem resume_and_cancel_need_a_row_witness:
  "''u1'' \<noteq> [] \<and> subscriptions empty_db ''u1'' = None
   \<and> post_subscription_resume_auto_renew (Some ''u1'') empty_db = (NotFound, empty_db)
   \<and> post_subscription_cancel_auto_renew 7 (Some ''u1'') (Some 9) empty_db = (NotFound, empty_db)"
proof -
  have h: "''u1'' \<noteq> []" "subscriptions empty_db ''u1'' = None"
    by (simp_all add: empty_db_def)
  show ?thesis
    using resume_and_cancel_need_a_row [OF h, of 7 "Some 9"] h
    by simp
qed

text \<open>
  A switch to free by an identified user always succeeds: afterwards the user has
  a subscription with the free plan, the inactive status, the source \<open>admin\<close>, no
  \<open>renewsAt\<close>, and \<open>canceledAt\<close> at the time of the request; the ledger is untouched.
\<close>

theorem switch_to_free_always_succeeds:
  assumes "uid \<noteq> []"
  shows "payments (snd (post_subscription_switch_to_free now (Some uid) db)) = payments db
       \<and> (\<exists>d. subscriptions (snd (post_subscription_switch_to_free now (Some uid) db)) uid = Some d
             \<and> fst (post_subscription_switch_to_free now (Some uid) db) =
                 Payload (toClientShape (Some d))
             \<and> plan d = Free \<and> status d = Inactive \<and> source d = Src_admin
             \<and> renewsAt d = None \<and> canceledAt d = Some now)"
  using assms
  by (auto simp: post_subscription_switch_to_free_def Let_def split: option.splits)

theorem switch_to_free_always_succeeds_witness:
  "''u1'' \<noteq> []
   \<and> map_option plan (subscriptions (subscribed_db Dropped) ''u1'') = Some Monthly
   \<and> (\<exists>d. subscriptions
             (snd (post_subscription_switch_to_free 8 (Some ''u1'') (subscribed_db Dropped)))
             ''u1'' = Some d
         \<and> plan d = Free \<and> status d = Inactive \<and> renewsAt d = None \<and> canceledAt d = Some 8)"
proof -
  have o: "map_option plan (subscriptions (subscribed_db Dropped) ''u1'') = Some Monthly"
    by (simp add: subscribed_db_eq)
  show ?thesis
    using switch_to_free_always_succeeds [of "''u1''" 8 "subscribed_db Dropped"] o
    by auto
qed

end
